theory Spec2Isabelle
  imports Main
begin

section \<open>Python values, exceptions and effects\<close>

text \<open>
  The program is one Python module, \<^verbatim>\<open>car_valuation_automation.py\<close>. Its strings are
  modelled as HOL strings, one \<open>char\<close> per code point, so texts are limited to code
  points below 256. Logging calls are left out: they do not change control flow.

  Exceptions are values. Every exception the module can meet is a subclass of Python's
  \<^verbatim>\<open>Exception\<close>; \<^verbatim>\<open>TimeoutException\<close> is Selenium's subclass of
  \<^verbatim>\<open>WebDriverException\<close>. Asynchronous interrupts are outside the model.
\<close>

datatype exn =
    WebDriverException string
  | TimeoutException string
  | KeyError string
  | AttributeError string
  | OtherException string

fun is_WebDriverException :: "exn \<Rightarrow> bool" where
  "is_WebDriverException (WebDriverException m) = True"
| "is_WebDriverException (TimeoutException m) = True"
| "is_WebDriverException e = False"

text \<open>
  A computation reads and changes the browser session \<open>'s\<close> and either raises or
  returns a value.
\<close>

type_synonym ('s, 'a) action = "'s \<Rightarrow> (exn + 'a) \<times> 's"

definition return_val :: "'a \<Rightarrow> ('s, 'a) action" where
  "return_val a = (\<lambda>s. (Inr a, s))"

definition raise_exn :: "exn \<Rightarrow> ('s, 'a) action" where
  "raise_exn e = (\<lambda>s. (Inl e, s))"

definition bind_act :: "('s, 'a) action \<Rightarrow> ('a \<Rightarrow> ('s, 'b) action) \<Rightarrow> ('s, 'b) action" where
  "bind_act m f = (\<lambda>s. case m s of (Inl e, s') \<Rightarrow> (Inl e, s') | (Inr a, s') \<Rightarrow> f a s')"

text \<open>
  The values that occur in a step dictionary: a string, or a locator tuple
  \<open>(strategy, selector)\<close>.
\<close>

datatype val = VStr string | VTuple string string

definition By_CSS_SELECTOR :: string where
  "By_CSS_SELECTOR = ''css selector''"

definition By_ID :: string where
  "By_ID = ''id''"

text \<open>
  The browser and the Python runtime around the module, as a record of operations on the
  session state. \<open>until_clickable\<close>, \<open>until_present\<close> and \<open>until_visible\<close> are
  \<^verbatim>\<open>WebDriverWait(driver, TIMEOUT).until\<close> applied to the three expected conditions the
  module uses; each returns the element (a handle) or raises. \<open>str_format\<close> is
  \<^verbatim>\<open>template.format(registration=...)\<close>, and \<open>sleep\<close> is \<^verbatim>\<open>time.sleep\<close>.
\<close>

record 's driver =
  get_url :: "string \<Rightarrow> ('s, unit) action"
  until_clickable :: "val \<Rightarrow> ('s, nat) action"
  until_present :: "val \<Rightarrow> ('s, nat) action"
  until_visible :: "val \<Rightarrow> ('s, nat) action"
  element_clear :: "nat \<Rightarrow> ('s, unit) action"
  element_send_keys :: "nat \<Rightarrow> string \<Rightarrow> ('s, unit) action"
  element_click :: "nat \<Rightarrow> ('s, unit) action"
  element_text :: "nat \<Rightarrow> ('s, string) action"
  is_connectable :: "('s, bool) action"
  save_screenshot :: "string \<Rightarrow> ('s, bool) action"
  str_format :: "string \<Rightarrow> string \<Rightarrow> exn + string"
  sleep :: "nat \<Rightarrow> 's \<Rightarrow> 's"

section \<open>Site flow descriptors\<close>

text \<open>
  A step is a Python dictionary with string keys, kept as an association list: which keys
  a step has decides what \<^verbatim>\<open>_execute_action\<close> does with it. A site configuration always
  has the same four entries and is a record.
\<close>

type_synonym step = "(string \<times> val) list"

record website_config =
  base_url :: string
  search_flow :: "step list"
  details_model :: val
  details_year :: val

definition motorway :: website_config where
  "motorway = \<lparr>
     base_url = ''https://motorway.co.uk/'',
     search_flow = [
       [(''action'', VStr ''input''),
        (''locator'', VTuple By_CSS_SELECTOR ''input#vrm-input''),
        (''keys'', VStr (''{registration}'' @ [CHR 0x0A]))],
       [(''wait_for'', VTuple By_CSS_SELECTOR ''h1.HeroVehicle__title'')]],
     details_model = VTuple By_CSS_SELECTOR ''h1.HeroVehicle__title'',
     details_year = VTuple By_CSS_SELECTOR ''ul.HeroVehicle__details li:first-child'' \<rparr>"

definition autotrader :: website_config where
  "autotrader = \<lparr>
     base_url = ''https://www.autotrader.co.uk/'',
     search_flow = [
       [(''action'', VStr ''click''),
        (''locator'', VTuple By_CSS_SELECTOR (''button[data-testid='' @ [CHR 0x27] @ ''toggle-button'' @ [CHR 0x27] @ '']''))],
       [(''action'', VStr ''input''),
        (''locator'', VTuple By_ID ''registration''),
        (''keys'', VStr ''{registration}'')],
       [(''action'', VStr ''click''),
        (''locator'', VTuple By_CSS_SELECTOR (''button[data-testid='' @ [CHR 0x27] @ ''search-button'' @ [CHR 0x27] @ '']''))],
       [(''wait_for'', VTuple By_CSS_SELECTOR (''h1[data-testid='' @ [CHR 0x27] @ ''search-title'' @ [CHR 0x27] @ '']''))]],
     details_model = VTuple By_CSS_SELECTOR (''h1[data-testid='' @ [CHR 0x27] @ ''search-title'' @ [CHR 0x27] @ '']''),
     details_year = VTuple By_CSS_SELECTOR (''li[data-testid='' @ [CHR 0x27] @ ''spec-year'' @ [CHR 0x27] @ '']'') \<rparr>"

definition confused :: website_config where
  "confused = \<lparr>
     base_url = ''https://www.confused.com/car-insurance/your-car'',
     search_flow = [
       [(''action'', VStr ''input''),
        (''locator'', VTuple By_ID ''Auto_Reg''),
        (''keys'', VStr ''{registration}'')],
       [(''action'', VStr ''click''),
        (''locator'', VTuple By_ID ''btnGetCarDetails'')],
       [(''wait_for'', VTuple By_CSS_SELECTOR ''div.vehicle-details'')]],
     details_model = VTuple By_CSS_SELECTOR ''span.vehicle-model'',
     details_year = VTuple By_CSS_SELECTOR ''span.vehicle-year'' \<rparr>"

text \<open>The registry, in declaration order (a Python dict keeps insertion order).\<close>

definition WEBSITE_CONFIGS :: "(string \<times> website_config) list" where
  "WEBSITE_CONFIGS = [(''motorway'', motorway), (''autotrader'', autotrader), (''confused'', confused)]"

definition CONFIG_TIMEOUT :: nat where
  "CONFIG_TIMEOUT = 30"

definition CONFIG_RETRIES :: nat where
  "CONFIG_RETRIES = 2"

section \<open>The flow executor\<close>

text \<open>\<^verbatim>\<open>step[key]\<close>: a missing key raises \<^verbatim>\<open>KeyError\<close>.\<close>

definition dict_get :: "step \<Rightarrow> string \<Rightarrow> ('s, val) action" where
  "dict_get d k = (case map_of d k of None \<Rightarrow> raise_exn (KeyError k) | Some v \<Rightarrow> return_val v)"

text \<open>\<^verbatim>\<open>step["keys"].format(registration=registration)\<close>: only a string has \<^verbatim>\<open>format\<close>.\<close>

definition format_keys :: "'s driver \<Rightarrow> val \<Rightarrow> string \<Rightarrow> ('s, string) action" where
  "format_keys drv k registration =
     (case k of
        VStr template \<Rightarrow>
          (case str_format drv template registration of
             Inl e \<Rightarrow> raise_exn e
           | Inr text \<Rightarrow> return_val text)
      | VTuple a b \<Rightarrow> raise_exn (AttributeError ''format''))"

text \<open>
  \<^verbatim>\<open>WebsiteValidator._execute_action\<close>. The first test already reads
  \<^verbatim>\<open>step["action"]\<close>; the \<^verbatim>\<open>"wait_for" in step\<close> test comes last.
\<close>

definition execute_action :: "'s driver \<Rightarrow> step \<Rightarrow> string \<Rightarrow> ('s, unit) action" where
  "execute_action drv step registration =
     bind_act (dict_get step ''action'') (\<lambda>a.
       if a = VStr ''input'' then
         bind_act (dict_get step ''locator'') (\<lambda>loc.
         bind_act (until_clickable drv loc) (\<lambda>element.
         bind_act (element_clear drv element) (\<lambda>u.
         bind_act (dict_get step ''keys'') (\<lambda>k.
         bind_act (format_keys drv k registration) (\<lambda>text.
           element_send_keys drv element text)))))
       else if a = VStr ''click'' then
         bind_act (dict_get step ''locator'') (\<lambda>loc.
         bind_act (until_clickable drv loc) (\<lambda>element.
           element_click drv element))
       else if map_of step ''wait_for'' \<noteq> None then
         bind_act (dict_get step ''wait_for'') (\<lambda>loc.
         bind_act (until_present drv loc) (\<lambda>element.
           return_val ()))
       else return_val ())"

text \<open>The \<^verbatim>\<open>for step in self.config["search_flow"]\<close> loop.\<close>

fun run_steps :: "'s driver \<Rightarrow> step list \<Rightarrow> string \<Rightarrow> ('s, unit) action" where
  "run_steps drv [] registration = return_val ()"
| "run_steps drv (step # steps) registration =
     bind_act (execute_action drv step registration) (\<lambda>u. run_steps drv steps registration)"

text \<open>
  The body of \<^verbatim>\<open>search_registration\<close>, under its own \<^verbatim>\<open>try\<close>: a
  \<^verbatim>\<open>WebDriverException\<close> is caught here and turned into \<open>False\<close>; any other exception
  propagates.
\<close>

definition search_body :: "'s driver \<Rightarrow> website_config \<Rightarrow> string \<Rightarrow> ('s, bool) action" where
  "search_body drv config registration =
     (\<lambda>s. case bind_act (get_url drv (base_url config))
                   (\<lambda>u. run_steps drv (search_flow config) registration) s of
             (Inr u, s') \<Rightarrow> (Inr True, s')
           | (Inl e, s') \<Rightarrow> if is_WebDriverException e then (Inr False, s') else (Inl e, s'))"

text \<open>
  The \<^verbatim>\<open>retry\<close> package's decorator, for a non-negative \<^verbatim>\<open>tries\<close>: call the function;
  an exception of the given class counts a try down and is raised again when none is
  left, otherwise the call is repeated after sleeping \<open>delay\<close>, which is then multiplied
  by \<open>backoff\<close>. With no tries at all the loop body never runs and the result is
  \<^verbatim>\<open>None\<close>.
\<close>

fun retry_internal ::
  "('s, 'a) action \<Rightarrow> (exn \<Rightarrow> bool) \<Rightarrow> nat \<Rightarrow> nat \<Rightarrow> nat \<Rightarrow> (nat \<Rightarrow> 's \<Rightarrow> 's) \<Rightarrow> ('s, 'a option) action" where
  "retry_internal f exceptions 0 delay backoff slp s = (Inr None, s)"
| "retry_internal f exceptions (Suc n) delay backoff slp s =
     (case f s of
        (Inr a, s') \<Rightarrow> (Inr (Some a), s')
      | (Inl e, s') \<Rightarrow>
          if exceptions e then
            (if n = 0 then (Inl e, s')
             else retry_internal f exceptions n (delay * backoff) backoff slp (slp delay s'))
          else (Inl e, s'))"

text \<open>
  \<^verbatim>\<open>@retry(WebDriverException, tries=CONFIG["RETRIES"], delay=2, backoff=2)\<close> around
  the body.
\<close>

definition search_registration :: "'s driver \<Rightarrow> website_config \<Rightarrow> string \<Rightarrow> ('s, bool option) action" where
  "search_registration drv config registration =
     retry_internal (search_body drv config registration) is_WebDriverException
       CONFIG_RETRIES 2 2 (sleep drv)"

section \<open>The field extractor\<close>

text \<open>
  \<^verbatim>\<open>str.strip()\<close> removes leading and trailing white space; below code point 256
  Python's white space is 9 to 13, 28 to 32, 133 and 160.
\<close>

definition is_space :: "char \<Rightarrow> bool" where
  "is_space c = (let n = (of_char c :: nat) in
     (9 \<le> n \<and> n \<le> 13) \<or> (28 \<le> n \<and> n \<le> 32) \<or> n = 133 \<or> n = 160)"

definition strip :: "string \<Rightarrow> string" where
  "strip t = rev (dropWhile is_space (rev (dropWhile is_space t)))"

text \<open>
  \<^verbatim>\<open>WebsiteValidator.get_vehicle_details\<close>: the model element, its text, the year
  element, its text, in this order; a \<^verbatim>\<open>WebDriverException\<close> from any of them gives
  the sentinel pair, any other exception propagates.
\<close>

definition get_vehicle_details :: "'s driver \<Rightarrow> website_config \<Rightarrow> ('s, string \<times> string) action" where
  "get_vehicle_details drv config =
     (\<lambda>s. case bind_act (until_visible drv (details_model config)) (\<lambda>e1.
                 bind_act (element_text drv e1) (\<lambda>t1.
                 bind_act (until_visible drv (details_year config)) (\<lambda>e2.
                 bind_act (element_text drv e2) (\<lambda>t2.
                   return_val (strip t1, strip t2))))) s of
             (Inr my, s') \<Rightarrow> (Inr my, s')
           | (Inl e, s') \<Rightarrow>
               if is_WebDriverException e then (Inr (''Not Found'', ''N/A''), s')
               else (Inl e, s'))"

section \<open>Data loading\<close>

subsection \<open>Registrations\<close>

text \<open>
  \<^verbatim>\<open>re.findall(r'\b[A-Z]{2}\d{2} [A-Z]{3}\b', content)\<close>. The classes of the pattern on
  code points below 256: \<^verbatim>\<open>[A-Z]\<close>, \<^verbatim>\<open>\d\<close> (only the ASCII digits are decimal digits
  there), and the word characters that decide \<^verbatim>\<open>\b\<close> (alphanumeric or underscore).
\<close>

definition is_upper :: "char \<Rightarrow> bool" where
  "is_upper c = (let n = (of_char c :: nat) in 65 \<le> n \<and> n \<le> 90)"

definition is_digit :: "char \<Rightarrow> bool" where
  "is_digit c = (let n = (of_char c :: nat) in 48 \<le> n \<and> n \<le> 57)"

definition is_word :: "char \<Rightarrow> bool" where
  "is_word c = (let n = (of_char c :: nat) in
     (48 \<le> n \<and> n \<le> 57) \<or> (65 \<le> n \<and> n \<le> 90) \<or> n = 95 \<or> (97 \<le> n \<and> n \<le> 122) \<or>
     n = 170 \<or> n = 178 \<or> n = 179 \<or> n = 181 \<or> n = 185 \<or> n = 186 \<or>
     (188 \<le> n \<and> n \<le> 190) \<or> (192 \<le> n \<and> n \<le> 214) \<or> (216 \<le> n \<and> n \<le> 246) \<or>
     (248 \<le> n \<and> n \<le> 255))"

text \<open>
  \<^verbatim>\<open>\b\<close> at index \<open>i\<close>: exactly one of the characters before and at \<open>i\<close> is a word
  character, where the outside of the text counts as a non-word character.
\<close>

definition word_boundary :: "string \<Rightarrow> nat \<Rightarrow> bool" where
  "word_boundary t i =
     ((0 < i \<and> i \<le> length t \<and> is_word (t ! (i - 1))) \<noteq> (i < length t \<and> is_word (t ! i)))"

text \<open>The pattern matches at index \<open>i\<close> (the match is then the eight characters from \<open>i\<close>).\<close>

definition match_at :: "string \<Rightarrow> nat \<Rightarrow> bool" where
  "match_at t i =
     (i + 8 \<le> length t \<and> word_boundary t i \<and>
      is_upper (t ! i) \<and> is_upper (t ! (i + 1)) \<and>
      is_digit (t ! (i + 2)) \<and> is_digit (t ! (i + 3)) \<and>
      t ! (i + 4) = CHR '' '' \<and>
      is_upper (t ! (i + 5)) \<and> is_upper (t ! (i + 6)) \<and> is_upper (t ! (i + 7)) \<and>
      word_boundary t (i + 8))"

text \<open>
  The scan of \<^verbatim>\<open>findall\<close>: try each index from the left; after a match the scan goes on
  at the end of the match, otherwise one character further. The result is the list of
  start indices.
\<close>

function findall_from :: "string \<Rightarrow> nat \<Rightarrow> nat list" where
  "findall_from t i =
     (if length t < i + 8 then []
      else if match_at t i then i # findall_from t (i + 8)
      else findall_from t (i + 1))"
  by pat_completeness auto
termination
  by (relation "measure (\<lambda>(t, i). length t - i)") auto

declare findall_from.simps [simp del]

text \<open>\<^verbatim>\<open>DataHandler.load_registrations\<close>, on the content of the file.\<close>

definition load_registrations :: "string \<Rightarrow> string list" where
  "load_registrations content = map (\<lambda>i. take 8 (drop i content)) (findall_from content 0)"

text \<open>
  A string that is, as a whole, one match of the pattern's body: two capitals, two
  digits, a space, three capitals. Such a string matches
  \<^verbatim>\<open>^[A-Z]{2}\d{2} [A-Z]{3}$\<close>.
\<close>

definition full_match :: "string \<Rightarrow> bool" where
  "full_match r =
     (length r = 8 \<and> is_upper (r ! 0) \<and> is_upper (r ! 1) \<and> is_digit (r ! 2) \<and> is_digit (r ! 3) \<and>
      r ! 4 = CHR '' '' \<and> is_upper (r ! 5) \<and> is_upper (r ! 6) \<and> is_upper (r ! 7))"

subsection \<open>Expected data\<close>

text \<open>
  A cell of the data frame as \<^verbatim>\<open>row[column]\<close> yields it: a string, an integer, a
  boolean or a float. Float arithmetic is not modelled: a float is carried by the text
  that \<^verbatim>\<open>str\<close> gives for it (\<open>''2019.0''\<close>, \<open>''nan''\<close>).
\<close>

datatype cell = CStr string | CInt int | CBool bool | CFloat string

definition digit_char :: "nat \<Rightarrow> char" where
  "digit_char d = ''0123456789'' ! d"

fun nat_digits :: "nat \<Rightarrow> string" where
  "nat_digits n = (if n < 10 then [digit_char n] else nat_digits (n div 10) @ [digit_char (n mod 10)])"

text \<open>\<^verbatim>\<open>str(value)\<close> on a cell.\<close>

fun py_str :: "cell \<Rightarrow> string" where
  "py_str (CStr t) = t"
| "py_str (CInt i) = (if i < 0 then CHR ''-'' # nat_digits (nat (- i)) else nat_digits (nat i))"
| "py_str (CBool b) = (if b then ''True'' else ''False'')"
| "py_str (CFloat repr) = repr"

record expected_row =
  VARIANT_REG :: cell
  MAKE_MODEL :: cell
  YEAR :: cell

text \<open>
  \<^verbatim>\<open>DataHandler.load_expected_data\<close>, on the rows of the data frame in order: the dict
  comprehension stores one entry per row, a later row replacing an earlier one with the
  same key.
\<close>

definition load_expected_data :: "expected_row list \<Rightarrow> (cell \<rightharpoonup> cell \<times> string)" where
  "load_expected_data rows =
     fold (\<lambda>row m. m(VARIANT_REG row \<mapsto> (MAKE_MODEL row, py_str (YEAR row)))) rows Map.empty"

section \<open>The validator\<close>

record validation_result =
  website :: string
  reg :: string
  exp_model :: cell
  exp_year :: string
  act_model :: string
  act_year :: string
  status :: string

text \<open>The result dictionary as \<^verbatim>\<open>validate_registration\<close> first builds it.\<close>

definition initial_result :: "string \<Rightarrow> string \<Rightarrow> validation_result" where
  "initial_result website_name registration =
     \<lparr>website = website_name, reg = registration,
      exp_model = CStr ''N/A'', exp_year = ''N/A'',
      act_model = ''N/A'', act_year = ''N/A'', status = ''Error''\<rparr>"

text \<open>
  The \<^verbatim>\<open>try\<close> block of \<^verbatim>\<open>validate_registration\<close>. It returns the exception that left
  the block, if any, with the result dictionary as it stands at that point.
\<close>

definition validate_try ::
  "(string \<times> website_config) list \<Rightarrow> 's driver \<Rightarrow> string \<Rightarrow> string \<Rightarrow> (cell \<rightharpoonup> cell \<times> string) \<Rightarrow>
   validation_result \<Rightarrow> 's \<Rightarrow> (exn option \<times> validation_result) \<times> 's" where
  "validate_try configs drv website_name registration expected_data result s =
     (case map_of configs website_name of
        None \<Rightarrow> ((Some (KeyError website_name), result), s)
      | Some config \<Rightarrow>
          (let exp_data = (case expected_data (CStr registration) of
                             None \<Rightarrow> (CStr ''Not Found'', ''N/A'')
                           | Some d \<Rightarrow> d);
               result1 = result\<lparr>exp_model := fst exp_data, exp_year := snd exp_data\<rparr>
           in case search_registration drv config registration s of
                (Inl e, s1) \<Rightarrow> ((Some e, result1), s1)
              | (Inr (Some True), s1) \<Rightarrow>
                  (case get_vehicle_details drv config s1 of
                     (Inl e, s2) \<Rightarrow> ((Some e, result1), s2)
                   | (Inr (model, year), s2) \<Rightarrow>
                       ((None, result1\<lparr>act_model := model, act_year := year,
                           status := (if CStr model = fst exp_data \<and> year = snd exp_data
                                      then ''Pass'' else ''Fail'')\<rparr>), s2))
              | (Inr found, s1) \<Rightarrow> ((None, result1\<lparr>status := ''Search Failed''\<rparr>), s1)))"

text \<open>
  The \<^verbatim>\<open>except Exception\<close> handler: a screenshot if the driver service answers, any
  exception in there swallowed.
\<close>

definition screenshot_name :: "string \<Rightarrow> string \<Rightarrow> string" where
  "screenshot_name website_name registration =
     ''error_'' @ website_name @ ''_'' @
     map (\<lambda>c. if c = CHR '' '' then CHR ''_'' else c) registration @ ''.png''"

definition try_screenshot :: "'s driver \<Rightarrow> string \<Rightarrow> string \<Rightarrow> 's \<Rightarrow> 's" where
  "try_screenshot drv website_name registration s =
     (case is_connectable drv s of
        (Inl e, s1) \<Rightarrow> s1
      | (Inr connectable, s1) \<Rightarrow>
          if connectable
          then snd (save_screenshot drv (screenshot_name website_name registration) s1)
          else s1)"

definition validate_registration ::
  "(string \<times> website_config) list \<Rightarrow> 's driver \<Rightarrow> string \<Rightarrow> string \<Rightarrow> (cell \<rightharpoonup> cell \<times> string) \<Rightarrow>
   's \<Rightarrow> validation_result \<times> 's" where
  "validate_registration configs drv website_name registration expected_data s =
     (case validate_try configs drv website_name registration expected_data
             (initial_result website_name registration) s of
        ((None, result), s') \<Rightarrow> (result, s')
      | ((Some e, result), s') \<Rightarrow> (result, try_screenshot drv website_name registration s'))"

section \<open>The aggregator\<close>

text \<open>
  The nested loops of \<^verbatim>\<open>main\<close>, with \<open>results\<close> the list that
  \<^verbatim>\<open>results.append\<close> grows and the session passed from one validation to the next.
\<close>

fun validate_regs ::
  "(string \<times> website_config) list \<Rightarrow> 's driver \<Rightarrow> string \<Rightarrow> string list \<Rightarrow> (cell \<rightharpoonup> cell \<times> string) \<Rightarrow>
   validation_result list \<Rightarrow> 's \<Rightarrow> validation_result list \<times> 's" where
  "validate_regs configs drv site [] expected_data results s = (results, s)"
| "validate_regs configs drv site (r # input_regs) expected_data results s =
     (case validate_registration configs drv site r expected_data s of
        (result, s') \<Rightarrow> validate_regs configs drv site input_regs expected_data (results @ [result]) s')"

fun validate_sites ::
  "(string \<times> website_config) list \<Rightarrow> 's driver \<Rightarrow> string list \<Rightarrow> string list \<Rightarrow>
   (cell \<rightharpoonup> cell \<times> string) \<Rightarrow> validation_result list \<Rightarrow> 's \<Rightarrow> validation_result list \<times> 's" where
  "validate_sites configs drv [] input_regs expected_data results s = (results, s)"
| "validate_sites configs drv (site # sites) input_regs expected_data results s =
     (case validate_regs configs drv site input_regs expected_data results s of
        (results', s') \<Rightarrow> validate_sites configs drv sites input_regs expected_data results' s')"

text \<open>
  The run over a registry: \<^verbatim>\<open>for website in WEBSITE_CONFIGS\<close> visits the keys in
  declaration order.
\<close>

definition run_all ::
  "(string \<times> website_config) list \<Rightarrow> 's driver \<Rightarrow> string list \<Rightarrow> (cell \<rightharpoonup> cell \<times> string) \<Rightarrow>
   's \<Rightarrow> validation_result list \<times> 's" where
  "run_all configs drv input_regs expected_data s =
     validate_sites configs drv (map fst configs) input_regs expected_data [] s"

text \<open>
  \<^verbatim>\<open>main\<close> between the opening of the browser and the writing of the reports, on the
  content of the input file and the rows of the expected-data file.
\<close>

definition main :: "'s driver \<Rightarrow> string \<Rightarrow> expected_row list \<Rightarrow> 's \<Rightarrow> validation_result list \<times> 's" where
  "main drv content rows s =
     run_all WEBSITE_CONFIGS drv (load_registrations content) (load_expected_data rows) s"

section \<open>A test double for the browser\<close>

text \<open>
  A deterministic mocked site, used to run the definitions on concrete inputs. The
  session state counts the navigations; the first \<open>failures\<close> of them raise
  \<^verbatim>\<open>WebDriverException\<close>. The element at \<open>model_locator\<close> shows \<open>model_text\<close>, any
  other element \<open>year_text\<close>; \<open>None\<close> means the element never becomes visible. The
  formatter replaces each \<^verbatim>\<open>{registration}\<close> field, as \<^verbatim>\<open>str.format\<close> does on a
  template with no other braces.
\<close>

fun format_registration :: "string \<Rightarrow> string \<Rightarrow> string" where
  "format_registration [] r = []"
| "format_registration (c # cs) r =
     (if c = CHR ''{'' \<and> take 13 cs = ''registration}''
      then r @ format_registration (drop 13 cs) r
      else c # format_registration cs r)"

definition stub_driver :: "nat \<Rightarrow> val \<Rightarrow> string option \<Rightarrow> string option \<Rightarrow> nat driver" where
  "stub_driver failures model_locator model_text year_text = \<lparr>
     get_url = (\<lambda>url n. (if n < failures then Inl (WebDriverException ''unreachable'') else Inr (), Suc n)),
     until_clickable = (\<lambda>loc n. (Inr 0, n)),
     until_present = (\<lambda>loc n. (Inr 0, n)),
     until_visible = (\<lambda>loc n.
        (case (if loc = model_locator then model_text else year_text) of
           None \<Rightarrow> Inl (TimeoutException ''not visible'')
         | Some t \<Rightarrow> Inr (if loc = model_locator then 1 else 2), n)),
     element_clear = (\<lambda>el n. (Inr (), n)),
     element_send_keys = (\<lambda>el keys n. (Inr (), n)),
     element_click = (\<lambda>el n. (Inr (), n)),
     element_text = (\<lambda>el n.
        (Inr (case (if el = 1 then model_text else year_text) of None \<Rightarrow> [] | Some t \<Rightarrow> t), n)),
     is_connectable = (\<lambda>n. (Inr True, n)),
     save_screenshot = (\<lambda>filename n. (Inr True, n)),
     str_format = (\<lambda>template r. Inr (format_registration template r)),
     sleep = (\<lambda>d n. n) \<rparr>"

text \<open>A site whose flow has an input and a click step and no wait step.\<close>

definition stub_site :: website_config where
  "stub_site = \<lparr>
     base_url = ''https://stub.example/'',
     search_flow = [
       [(''action'', VStr ''input''), (''locator'', VTuple By_ID ''reg''), (''keys'', VStr ''{registration}'')],
       [(''action'', VStr ''click''), (''locator'', VTuple By_ID ''go'')]],
     details_model = VTuple By_ID ''model'',
     details_year = VTuple By_ID ''year'' \<rparr>"

definition ford_focus :: "nat driver" where
  "ford_focus = stub_driver 0 (VTuple By_ID ''model'') (Some ''Ford Focus'') (Some '' 2019 '')"

text \<open>A session that has died: every operation raises an exception of no Selenium class.\<close>

definition dead_session :: "nat driver" where
  "dead_session = \<lparr>
     get_url = (\<lambda>url n. (Inl (OtherException ''connection refused''), Suc n)),
     until_clickable = (\<lambda>loc n. (Inl (OtherException ''connection refused''), n)),
     until_present = (\<lambda>loc n. (Inl (OtherException ''connection refused''), n)),
     until_visible = (\<lambda>loc n. (Inl (OtherException ''connection refused''), n)),
     element_clear = (\<lambda>el n. (Inl (OtherException ''connection refused''), n)),
     element_send_keys = (\<lambda>el keys n. (Inl (OtherException ''connection refused''), n)),
     element_click = (\<lambda>el n. (Inl (OtherException ''connection refused''), n)),
     element_text = (\<lambda>el n. (Inl (OtherException ''connection refused''), n)),
     is_connectable = (\<lambda>n. (Inl (OtherException ''connection refused''), n)),
     save_screenshot = (\<lambda>filename n. (Inl (OtherException ''connection refused''), n)),
     str_format = (\<lambda>template r. Inr (format_registration template r)),
     sleep = (\<lambda>d n. n) \<rparr>"

text \<open>An input text with the same registration twice and three near misses.\<close>

definition sample_text :: string where
  "sample_text = ''Vehicle AB12 CDE was seen, AB12 CDE again, XAB12 CDE no, ab12 cde, ZZ99 QQQ''"

section \<open>The flow executor: steps and retries\<close>

text \<open>
  C1 (the step-execution operation on a WaitFor step). A WaitFor step of the descriptors
  is a dictionary with the single key \<^verbatim>\<open>wait_for\<close>. On such a step
  \<^verbatim>\<open>_execute_action\<close> raises \<^verbatim>\<open>KeyError\<close> for the key \<^verbatim>\<open>action\<close>, whatever the
  browser does, and leaves the session untouched: the presence wait is never started.
\<close>

theorem wait_for_step_raises_KeyError:
  "execute_action drv [(''wait_for'', loc)] registration s = (Inl (KeyError ''action''), s)"
  by (simp add: execute_action_def bind_act_def dict_get_def raise_exn_def)

lemma execute_action_no_action_key:
  "map_of step ''action'' = None \<Longrightarrow>
   execute_action drv step registration s = (Inl (KeyError ''action''), s)"
  by (simp add: execute_action_def bind_act_def dict_get_def raise_exn_def)

text \<open>
  The body of \<^verbatim>\<open>search_registration\<close> never lets a \<^verbatim>\<open>WebDriverException\<close> out, so
  the retry decorator around it never sees one: the decorated function is the body, run
  once.
\<close>

lemma search_body_not_WebDriverException:
  "search_body drv config registration s = (Inl e, s') \<Longrightarrow> \<not> is_WebDriverException e"
  by (auto simp: search_body_def split: prod.splits sum.splits if_splits)

lemma search_registration_body:
  "search_registration drv config registration s =
     (case search_body drv config registration s of
        (Inr b, s') \<Rightarrow> (Inr (Some b), s')
      | (Inl e, s') \<Rightarrow> (Inl e, s'))"
proof (cases "search_body drv config registration s")
  case (Pair r s')
  show ?thesis
  proof (cases r)
    case (Inl e)
    from Pair Inl have "search_body drv config registration s = (Inl e, s')" by simp
    then have "\<not> is_WebDriverException e"
      by (rule search_body_not_WebDriverException)
    with Pair Inl show ?thesis
      by (simp add: search_registration_def CONFIG_RETRIES_def numeral_2_eq_2)
  next
    case (Inr b)
    with Pair show ?thesis
      by (simp add: search_registration_def CONFIG_RETRIES_def numeral_2_eq_2)
  qed
qed

text \<open>
  A flow whose last step is a wait step never completes: the search ends in the
  \<^verbatim>\<open>KeyError\<close> of that step or in an earlier failure. All three built-in flows end so,
  hence on the built-in sites the search never returns \<open>True\<close>.
\<close>

lemma run_steps_wait_for_last:
  "\<exists>e s'. run_steps drv (steps @ [[(''wait_for'', loc)]]) registration s = (Inl e, s')"
proof (induction steps arbitrary: s)
  case Nil
  show ?case
    by (simp add: bind_act_def execute_action_no_action_key)
next
  case (Cons step steps)
  show ?case
  proof (cases "execute_action drv step registration s")
    case (Pair r s1)
    then show ?thesis
      using Cons.IH [of s1] by (cases r) (auto simp: bind_act_def)
  qed
qed

lemma search_never_succeeds_with_wait_for_last:
  assumes "search_flow config = steps @ [[(''wait_for'', loc)]]"
  shows "search_registration drv config registration s \<noteq> (Inr (Some True), s')"
proof -
  obtain r s1 where g: "get_url drv (base_url config) s = (r, s1)"
    by (cases "get_url drv (base_url config) s")
  obtain e s2 where "run_steps drv (search_flow config) registration s1 = (Inl e, s2)"
    using run_steps_wait_for_last [of drv steps loc registration s1] assms by auto
  with g show ?thesis
    by (cases r) (auto simp: search_registration_body search_body_def bind_act_def)
qed

lemma builtin_flows_end_with_wait_for:
  "\<exists>steps loc. search_flow motorway = steps @ [[(''wait_for'', loc)]]"
  "\<exists>steps loc. search_flow autotrader = steps @ [[(''wait_for'', loc)]]"
  "\<exists>steps loc. search_flow confused = steps @ [[(''wait_for'', loc)]]"
proof -
  have "search_flow motorway = butlast (search_flow motorway) @ [last (search_flow motorway)]"
    by (simp add: motorway_def)
  then show "\<exists>steps loc. search_flow motorway = steps @ [[(''wait_for'', loc)]]"
    by (simp add: motorway_def)
  have "search_flow autotrader = butlast (search_flow autotrader) @ [last (search_flow autotrader)]"
    by (simp add: autotrader_def)
  then show "\<exists>steps loc. search_flow autotrader = steps @ [[(''wait_for'', loc)]]"
    by (simp add: autotrader_def)
  have "search_flow confused = butlast (search_flow confused) @ [last (search_flow confused)]"
    by (simp add: confused_def)
  then show "\<exists>steps loc. search_flow confused = steps @ [[(''wait_for'', loc)]]"
    by (simp add: confused_def)
qed

lemma builtin_search_never_succeeds:
  assumes "(site, config) \<in> set WEBSITE_CONFIGS"
  shows "search_registration drv config registration s \<noteq> (Inr (Some True), s')"
proof -
  from assms have "config = motorway \<or> config = autotrader \<or> config = confused"
    by (auto simp: WEBSITE_CONFIGS_def)
  then have "\<exists>steps loc. search_flow config = steps @ [[(''wait_for'', loc)]]"
    using builtin_flows_end_with_wait_for by blast
  then obtain steps loc where "search_flow config = steps @ [[(''wait_for'', loc)]]"
    by blast
  then show ?thesis by (rule search_never_succeeds_with_wait_for_last)
qed

text \<open>
  C2 (retry policy of a search invocation). On the mocked site whose first navigation
  fails with \<^verbatim>\<open>WebDriverException\<close> and whose later navigations succeed, one call of
  \<^verbatim>\<open>search_registration\<close> returns \<open>False\<close> after a single navigation, although the
  same call made on the session as that attempt left it returns \<open>True\<close>.
\<close>

theorem search_registration_gives_up_after_first_failure:
  "search_registration (stub_driver 1 (VTuple By_ID ''model'') (Some ''Ford Focus'') (Some ''2019''))
     stub_site ''AB12 CDE'' 0 = (Inr (Some False), 1) \<and>
   search_registration (stub_driver 1 (VTuple By_ID ''model'') (Some ''Ford Focus'') (Some ''2019''))
     stub_site ''AB12 CDE'' 1 = (Inr (Some True), 2)"
  by (simp add: search_registration_body search_body_def stub_driver_def stub_site_def
      bind_act_def return_val_def raise_exn_def execute_action_def dict_get_def format_keys_def)

section \<open>The aggregator: one result per pair\<close>

lemma validate_registration_keys:
  "website (fst (validate_registration configs drv site registration expected_data s)) = site \<and>
   reg (fst (validate_registration configs drv site registration expected_data s)) = registration"
  by (simp add: validate_registration_def validate_try_def initial_result_def Let_def
      split: option.splits prod.splits sum.splits bool.splits)

lemma validate_regs_keys:
  "map (\<lambda>r. (website r, reg r)) (fst (validate_regs configs drv site input_regs expected_data results s)) =
   map (\<lambda>r. (website r, reg r)) results @ map (Pair site) input_regs"
proof (induction input_regs arbitrary: results s)
  case Nil
  then show ?case by simp
next
  case (Cons r input_regs)
  obtain result s' where v: "validate_registration configs drv site r expected_data s = (result, s')"
    by (cases "validate_registration configs drv site r expected_data s")
  from validate_registration_keys [of configs drv site r expected_data s] v
  have "website result = site" "reg result = r" by simp_all
  with Cons.IH [of "results @ [result]" s'] v show ?case by simp
qed

lemma validate_sites_keys:
  "map (\<lambda>r. (website r, reg r)) (fst (validate_sites configs drv sites input_regs expected_data results s)) =
   map (\<lambda>r. (website r, reg r)) results @ List.product sites input_regs"
proof (induction sites arbitrary: results s)
  case Nil
  then show ?case by simp
next
  case (Cons site sites)
  obtain results' s' where v: "validate_regs configs drv site input_regs expected_data results s = (results', s')"
    by (cases "validate_regs configs drv site input_regs expected_data results s")
  from validate_regs_keys [of configs drv site input_regs expected_data results s] v
  have "map (\<lambda>r. (website r, reg r)) results' = map (\<lambda>r. (website r, reg r)) results @ map (Pair site) input_regs"
    by simp
  with Cons.IH [of results' s'] v show ?case by simp
qed

text \<open>
  C3 (one result per pair of the cross-product, in production order). For every registry,
  every list of registrations, every expected-data map and every behaviour of the
  browser, exceptions included, the run returns a list whose (site, registration) keys
  are the cross-product of the sites in declared order with the registrations in load
  order; its length is the number of sites times the number of registrations.
\<close>

theorem run_all_cross_product:
  "map (\<lambda>r. (website r, reg r)) (fst (run_all configs drv input_regs expected_data s)) =
     List.product (map fst configs) input_regs \<and>
   length (fst (run_all configs drv input_regs expected_data s)) = length configs * length input_regs"
proof -
  have m: "map (\<lambda>r. (website r, reg r)) (fst (run_all configs drv input_regs expected_data s)) =
     List.product (map fst configs) input_regs"
    using validate_sites_keys [of configs drv "map fst configs" input_regs expected_data "[]" s]
    by (simp add: run_all_def)
  have "length (map (\<lambda>r. (website r, reg r)) (fst (run_all configs drv input_regs expected_data s))) =
     length (List.product (map fst configs) input_regs)"
    by (simp only: m)
  then have "length (fst (run_all configs drv input_regs expected_data s)) = length configs * length input_regs"
    by simp
  with m show ?thesis by simp
qed

text \<open>The three built-in sites and two registrations on a dead session: six results.\<close>

theorem run_all_cross_product_witness:
  "map (\<lambda>r. (website r, reg r))
     (fst (run_all WEBSITE_CONFIGS dead_session [''AB12 CDE'', ''XY34 ZZZ''] Map.empty 0)) =
     [(''motorway'', ''AB12 CDE''), (''motorway'', ''XY34 ZZZ''),
      (''autotrader'', ''AB12 CDE''), (''autotrader'', ''XY34 ZZZ''),
      (''confused'', ''AB12 CDE''), (''confused'', ''XY34 ZZZ'')] \<and>
   length (fst (run_all WEBSITE_CONFIGS dead_session [''AB12 CDE'', ''XY34 ZZZ''] Map.empty 0)) = 6"
  using run_all_cross_product [of WEBSITE_CONFIGS dead_session "[''AB12 CDE'', ''XY34 ZZZ'']" Map.empty 0]
  by (simp add: WEBSITE_CONFIGS_def)

section \<open>The validator: classification\<close>

text \<open>Stripping is idempotent, so what the extractor returns is already stripped.\<close>

lemma dropWhile_butlast_spaces:
  "dropWhile P (rev (dropWhile P (rev (dropWhile P t)))) = rev (dropWhile P (rev (dropWhile P t)))"
proof -
  define u where "u = dropWhile P t"
  define v where "v = rev (dropWhile P (rev u))"
  have u: "u = v @ rev (takeWhile P (rev u))"
    unfolding v_def by (metis rev_append rev_rev_ident takeWhile_dropWhile_id)
  have "v = [] \<or> \<not> P (hd v)"
  proof (cases v)
    case Nil
    then show ?thesis by simp
  next
    case (Cons x xs)
    with u have "hd u = x" "u \<noteq> []" by (metis append_Cons list.sel(1), metis append_is_Nil_conv list.distinct(1))
    then have "\<not> P x" unfolding u_def by (metis hd_dropWhile)
    with Cons show ?thesis by simp
  qed
  then have "dropWhile P v = v"
    by (cases v) auto
  then show ?thesis by (simp add: u_def v_def)
qed

lemma strip_idem: "strip (strip t) = strip t"
  by (simp add: strip_def dropWhile_butlast_spaces)

lemma get_vehicle_details_stripped:
  "get_vehicle_details drv config s = (Inr (model, year), s') \<Longrightarrow> strip model = model \<and> strip year = year"
  by (auto simp: get_vehicle_details_def bind_act_def return_val_def strip_idem
      split: prod.splits sum.splits if_splits) (simp_all add: strip_def is_space_def)

text \<open>
  C4 (classification of a successful search). When the site is configured, the search
  returns \<open>True\<close> and the extractor returns the strings \<open>model\<close> and \<open>year\<close>, the
  result carries these two strings, which are stripped of surrounding white space, next
  to the expected pair (the entry of the registration, or the sentinel pair); its status
  is \<open>Pass\<close> exactly when the actual model equals the expected model and the actual
  year equals the expected year, as values and so case-sensitively, and \<open>Fail\<close>
  otherwise.
\<close>

theorem validate_registration_pass_iff:
  assumes "map_of configs site = Some config"
    and "search_registration drv config registration s = (Inr (Some True), s1)"
    and "get_vehicle_details drv config s1 = (Inr (model, year), s2)"
  shows "let r = fst (validate_registration configs drv site registration expected_data s) in
     (exp_model r, exp_year r) =
       (case expected_data (CStr registration) of None \<Rightarrow> (CStr ''Not Found'', ''N/A'') | Some d \<Rightarrow> d) \<and>
     act_model r = model \<and> act_year r = year \<and> strip model = model \<and> strip year = year \<and>
     status r = (if CStr model = exp_model r \<and> year = exp_year r then ''Pass'' else ''Fail'') \<and>
     (status r = ''Pass'') = (CStr (act_model r) = exp_model r \<and> act_year r = exp_year r)"
  using assms get_vehicle_details_stripped [OF assms(3)]
  by (simp add: validate_registration_def validate_try_def initial_result_def Let_def)

text \<open>
  The mocked site shows \<open>Ford Focus\<close> and the year 2019 between spaces; the expected model is in turn the
  same, another model, the same with another year, and the same in lower case.
\<close>

lemma ford_focus_search:
  "search_registration ford_focus stub_site ''AB12 CDE'' 0 = (Inr (Some True), 1)"
  by (simp add: search_registration_body search_body_def ford_focus_def stub_driver_def stub_site_def
      bind_act_def return_val_def raise_exn_def execute_action_def dict_get_def format_keys_def)

lemma ford_focus_details:
  "get_vehicle_details ford_focus stub_site 1 = (Inr (''Ford Focus'', ''2019''), 1)"
  by (simp add: get_vehicle_details_def ford_focus_def stub_driver_def stub_site_def
      bind_act_def return_val_def strip_def is_space_def By_ID_def)

theorem validate_registration_pass_iff_witness:
  "map_of [(''stub'', stub_site)] ''stub'' = Some stub_site \<and>
   search_registration ford_focus stub_site ''AB12 CDE'' 0 = (Inr (Some True), 1) \<and>
   get_vehicle_details ford_focus stub_site 1 = (Inr (''Ford Focus'', ''2019''), 1) \<and>
   status (fst (validate_registration [(''stub'', stub_site)] ford_focus ''stub'' ''AB12 CDE''
      [CStr ''AB12 CDE'' \<mapsto> (CStr ''Ford Focus'', ''2019'')] 0)) = ''Pass'' \<and>
   status (fst (validate_registration [(''stub'', stub_site)] ford_focus ''stub'' ''AB12 CDE''
      [CStr ''AB12 CDE'' \<mapsto> (CStr ''Ford Fiesta'', ''2019'')] 0)) = ''Fail'' \<and>
   status (fst (validate_registration [(''stub'', stub_site)] ford_focus ''stub'' ''AB12 CDE''
      [CStr ''AB12 CDE'' \<mapsto> (CStr ''Ford Focus'', ''2018'')] 0)) = ''Fail'' \<and>
   status (fst (validate_registration [(''stub'', stub_site)] ford_focus ''stub'' ''AB12 CDE''
      [CStr ''AB12 CDE'' \<mapsto> (CStr ''ford focus'', ''2019'')] 0)) = ''Fail''"
proof -
  have h1: "map_of [(''stub'', stub_site)] ''stub'' = Some stub_site" by simp
  note h2 = ford_focus_search
  note h3 = ford_focus_details
  note t = validate_registration_pass_iff [OF h1 h2 h3]
  show ?thesis
    using h1 h2 h3
      t [of "[CStr ''AB12 CDE'' \<mapsto> (CStr ''Ford Focus'', ''2019'')]"]
      t [of "[CStr ''AB12 CDE'' \<mapsto> (CStr ''Ford Fiesta'', ''2019'')]"]
      t [of "[CStr ''AB12 CDE'' \<mapsto> (CStr ''Ford Focus'', ''2018'')]"]
      t [of "[CStr ''AB12 CDE'' \<mapsto> (CStr ''ford focus'', ''2019'')]"]
    by (simp add: Let_def)
qed

section \<open>The validator: status and placeholders\<close>

text \<open>
  C5 (the status is one of four values; a failed search). The status of every result is
  one of the four strings \<open>Pass\<close>, \<open>Fail\<close>, \<open>Search Failed\<close> and \<open>Error\<close>, which
  are the values of the status enumeration as the module writes them. Whenever the site
  is configured and the search returns \<open>False\<close>, the status is \<open>Search Failed\<close> and both
  actual fields are still \<open>N/A\<close>.
\<close>

theorem validate_registration_status_closed:
  "status (fst (validate_registration configs drv site registration expected_data s))
     \<in> {''Pass'', ''Fail'', ''Search Failed'', ''Error''} \<and>
   (\<forall>config s1. map_of configs site = Some config \<longrightarrow>
      search_registration drv config registration s = (Inr (Some False), s1) \<longrightarrow>
      status (fst (validate_registration configs drv site registration expected_data s)) = ''Search Failed'' \<and>
      act_model (fst (validate_registration configs drv site registration expected_data s)) = ''N/A'' \<and>
      act_year (fst (validate_registration configs drv site registration expected_data s)) = ''N/A'')"
  by (auto simp: validate_registration_def validate_try_def initial_result_def Let_def
      split: option.splits prod.splits sum.splits bool.splits)

text \<open>The first navigation to the motorway site fails: the search returns \<open>False\<close>.\<close>

lemma unreachable_search:
  "search_registration (stub_driver 1 (VTuple By_ID ''model'') (Some ''Ford Focus'') (Some ''2019''))
     motorway ''AB12 CDE'' 0 = (Inr (Some False), 1)"
  by (simp add: search_registration_body search_body_def stub_driver_def motorway_def bind_act_def)

theorem validate_registration_status_closed_witness:
  "map_of WEBSITE_CONFIGS ''motorway'' = Some motorway \<and>
   search_registration (stub_driver 1 (VTuple By_ID ''model'') (Some ''Ford Focus'') (Some ''2019''))
     motorway ''AB12 CDE'' 0 = (Inr (Some False), 1) \<and>
   fst (validate_registration WEBSITE_CONFIGS
          (stub_driver 1 (VTuple By_ID ''model'') (Some ''Ford Focus'') (Some ''2019''))
          ''motorway'' ''AB12 CDE'' [CStr ''AB12 CDE'' \<mapsto> (CStr ''Ford Focus'', ''2019'')] 0) =
     \<lparr>website = ''motorway'', reg = ''AB12 CDE'', exp_model = CStr ''Ford Focus'', exp_year = ''2019'',
      act_model = ''N/A'', act_year = ''N/A'', status = ''Search Failed''\<rparr>"
proof -
  have h1: "map_of WEBSITE_CONFIGS ''motorway'' = Some motorway"
    by (simp add: WEBSITE_CONFIGS_def)
  note h2 = unreachable_search
  from validate_registration_status_closed
    [of WEBSITE_CONFIGS "stub_driver 1 (VTuple By_ID ''model'') (Some ''Ford Focus'') (Some ''2019'')"
        "''motorway''" "''AB12 CDE''" "[CStr ''AB12 CDE'' \<mapsto> (CStr ''Ford Focus'', ''2019'')]" 0]
    h1 h2
  have "status (fst (validate_registration WEBSITE_CONFIGS
          (stub_driver 1 (VTuple By_ID ''model'') (Some ''Ford Focus'') (Some ''2019''))
          ''motorway'' ''AB12 CDE'' [CStr ''AB12 CDE'' \<mapsto> (CStr ''Ford Focus'', ''2019'')] 0)) = ''Search Failed''"
    by blast
  moreover have "fst (validate_registration WEBSITE_CONFIGS
          (stub_driver 1 (VTuple By_ID ''model'') (Some ''Ford Focus'') (Some ''2019''))
          ''motorway'' ''AB12 CDE'' [CStr ''AB12 CDE'' \<mapsto> (CStr ''Ford Focus'', ''2019'')] 0) =
     \<lparr>website = ''motorway'', reg = ''AB12 CDE'', exp_model = CStr ''Ford Focus'', exp_year = ''2019'',
      act_model = ''N/A'', act_year = ''N/A'', status = ''Search Failed''\<rparr>"
    using h1 h2 by (simp add: validate_registration_def validate_try_def initial_result_def)
  ultimately show ?thesis using h1 h2 by simp
qed

section \<open>The field extractor: soft failure\<close>

text \<open>
  C7 (a failed lookup gives the sentinel pair). When the wait for the model element
  raises a \<^verbatim>\<open>WebDriverException\<close> (a time-out is one), or the model element is read
  and the wait for the year element raises one, the extractor returns the pair
  \<open>(Not Found, N/A)\<close> as a value: nothing is raised to the caller.
\<close>

theorem get_vehicle_details_soft_failure:
  assumes "is_WebDriverException e"
    and "until_visible drv (details_model config) s = (Inl e, s') \<or>
         (\<exists>e1 s1 t1 s2. until_visible drv (details_model config) s = (Inr e1, s1) \<and>
            element_text drv e1 s1 = (Inr t1, s2) \<and>
            until_visible drv (details_year config) s2 = (Inl e, s'))"
  shows "get_vehicle_details drv config s = (Inr (''Not Found'', ''N/A''), s')"
  using assms by (auto simp: get_vehicle_details_def bind_act_def)

text \<open>A page where the model never becomes visible, and one where the year never does.\<close>

theorem get_vehicle_details_soft_failure_witness:
  "is_WebDriverException (TimeoutException ''not visible'') \<and>
   until_visible (stub_driver 0 (VTuple By_ID ''model'') None (Some ''2019'')) (details_model stub_site) 0 =
     (Inl (TimeoutException ''not visible''), 0) \<and>
   get_vehicle_details (stub_driver 0 (VTuple By_ID ''model'') None (Some ''2019'')) stub_site 0 =
     (Inr (''Not Found'', ''N/A''), 0) \<and>
   until_visible (stub_driver 0 (VTuple By_ID ''model'') (Some ''Ford Focus'') None) (details_model stub_site) 0 =
     (Inr 1, 0) \<and>
   element_text (stub_driver 0 (VTuple By_ID ''model'') (Some ''Ford Focus'') None) 1 0 = (Inr ''Ford Focus'', 0) \<and>
   until_visible (stub_driver 0 (VTuple By_ID ''model'') (Some ''Ford Focus'') None) (details_year stub_site) 0 =
     (Inl (TimeoutException ''not visible''), 0) \<and>
   get_vehicle_details (stub_driver 0 (VTuple By_ID ''model'') (Some ''Ford Focus'') None) stub_site 0 =
     (Inr (''Not Found'', ''N/A''), 0)"
proof -
  have w: "is_WebDriverException (TimeoutException ''not visible'')" by simp
  have m: "until_visible (stub_driver 0 (VTuple By_ID ''model'') None (Some ''2019'')) (details_model stub_site) 0 =
     (Inl (TimeoutException ''not visible''), 0)"
    by (simp add: stub_driver_def stub_site_def)
  have y1: "until_visible (stub_driver 0 (VTuple By_ID ''model'') (Some ''Ford Focus'') None) (details_model stub_site) 0 =
     (Inr 1, 0)"
    by (simp add: stub_driver_def stub_site_def)
  have y2: "element_text (stub_driver 0 (VTuple By_ID ''model'') (Some ''Ford Focus'') None) 1 0 = (Inr ''Ford Focus'', 0)"
    by (simp add: stub_driver_def)
  have y3: "until_visible (stub_driver 0 (VTuple By_ID ''model'') (Some ''Ford Focus'') None) (details_year stub_site) 0 =
     (Inl (TimeoutException ''not visible''), 0)"
    by (simp add: stub_driver_def stub_site_def By_ID_def)
  have a: "get_vehicle_details (stub_driver 0 (VTuple By_ID ''model'') None (Some ''2019'')) stub_site 0 =
     (Inr (''Not Found'', ''N/A''), 0)"
    by (rule get_vehicle_details_soft_failure [OF w]) (simp add: m)
  have b: "get_vehicle_details (stub_driver 0 (VTuple By_ID ''model'') (Some ''Ford Focus'') None) stub_site 0 =
     (Inr (''Not Found'', ''N/A''), 0)"
    by (rule get_vehicle_details_soft_failure [OF w]) (use y1 y2 y3 in blast)
  from w m y1 y2 y3 a b show ?thesis by simp
qed

section \<open>The validator: a registration with no expected data\<close>

text \<open>
  C8 (registration absent from the expected-data map). For a configured site and a
  registration that is no key of the expected-data map, the result's expected pair is
  \<open>(Not Found, N/A)\<close>; and when the search returns \<open>True\<close> and the extractor returns
  \<open>model\<close> and \<open>year\<close>, the status is \<open>Pass\<close> if these are exactly the two sentinel
  strings and \<open>Fail\<close> otherwise.
\<close>

theorem validate_registration_missing_expected:
  assumes "map_of configs site = Some config"
    and "expected_data (CStr registration) = None"
  shows "exp_model (fst (validate_registration configs drv site registration expected_data s)) = CStr ''Not Found'' \<and>
     exp_year (fst (validate_registration configs drv site registration expected_data s)) = ''N/A'' \<and>
     (\<forall>s1 model year s2.
        search_registration drv config registration s = (Inr (Some True), s1) \<longrightarrow>
        get_vehicle_details drv config s1 = (Inr (model, year), s2) \<longrightarrow>
        status (fst (validate_registration configs drv site registration expected_data s)) =
          (if model = ''Not Found'' \<and> year = ''N/A'' then ''Pass'' else ''Fail''))"
  using assms
  by (auto simp: validate_registration_def validate_try_def initial_result_def Let_def
      split: option.splits prod.splits sum.splits bool.splits)

text \<open>
  On a page that shows a model and a year the status is \<open>Fail\<close>; on a page where nothing
  becomes visible the extractor returns the sentinel pair itself and the status is
  \<open>Pass\<close>.
\<close>

lemma nothing_visible_details:
  "get_vehicle_details (stub_driver 0 (VTuple By_ID ''model'') None None) stub_site 1 =
     (Inr (''Not Found'', ''N/A''), 1)"
  by (simp add: get_vehicle_details_def stub_driver_def stub_site_def bind_act_def)

lemma nothing_visible_search:
  "search_registration (stub_driver 0 (VTuple By_ID ''model'') None None) stub_site ''XX99 ZZZ'' 0 =
     (Inr (Some True), 1)"
  by (simp add: search_registration_body search_body_def stub_driver_def stub_site_def
      bind_act_def return_val_def raise_exn_def execute_action_def dict_get_def format_keys_def)

lemma ford_focus_search_other:
  "search_registration ford_focus stub_site ''XX99 ZZZ'' 0 = (Inr (Some True), 1)"
  by (simp add: search_registration_body search_body_def ford_focus_def stub_driver_def stub_site_def
      bind_act_def return_val_def raise_exn_def execute_action_def dict_get_def format_keys_def)

theorem validate_registration_missing_expected_witness:
  "map_of [(''stub'', stub_site)] ''stub'' = Some stub_site \<and>
   [CStr ''AB12 CDE'' \<mapsto> (CStr ''Ford Focus'', ''2019'')] (CStr ''XX99 ZZZ'') = None \<and>
   exp_model (fst (validate_registration [(''stub'', stub_site)] ford_focus ''stub'' ''XX99 ZZZ''
      [CStr ''AB12 CDE'' \<mapsto> (CStr ''Ford Focus'', ''2019'')] 0)) = CStr ''Not Found'' \<and>
   exp_year (fst (validate_registration [(''stub'', stub_site)] ford_focus ''stub'' ''XX99 ZZZ''
      [CStr ''AB12 CDE'' \<mapsto> (CStr ''Ford Focus'', ''2019'')] 0)) = ''N/A'' \<and>
   status (fst (validate_registration [(''stub'', stub_site)] ford_focus ''stub'' ''XX99 ZZZ''
      [CStr ''AB12 CDE'' \<mapsto> (CStr ''Ford Focus'', ''2019'')] 0)) = ''Fail'' \<and>
   status (fst (validate_registration [(''stub'', stub_site)]
      (stub_driver 0 (VTuple By_ID ''model'') None None) ''stub'' ''XX99 ZZZ''
      [CStr ''AB12 CDE'' \<mapsto> (CStr ''Ford Focus'', ''2019'')] 0)) = ''Pass''"
proof -
  have h1: "map_of [(''stub'', stub_site)] ''stub'' = Some stub_site" by simp
  have h2: "[CStr ''AB12 CDE'' \<mapsto> (CStr ''Ford Focus'', ''2019'')] (CStr ''XX99 ZZZ'') = None" by simp
  note t = validate_registration_missing_expected
    [where expected_data = "[CStr ''AB12 CDE'' \<mapsto> (CStr ''Ford Focus'', ''2019'')]"
       and registration = "''XX99 ZZZ''", OF h1 h2]
  from t [of ford_focus 0] ford_focus_search_other ford_focus_details
  have a: "status (fst (validate_registration [(''stub'', stub_site)] ford_focus ''stub'' ''XX99 ZZZ''
      [CStr ''AB12 CDE'' \<mapsto> (CStr ''Ford Focus'', ''2019'')] 0)) = ''Fail''"
    by fastforce
  from t [of "stub_driver 0 (VTuple By_ID ''model'') None None" 0]
    nothing_visible_search nothing_visible_details
  have b: "status (fst (validate_registration [(''stub'', stub_site)]
      (stub_driver 0 (VTuple By_ID ''model'') None None) ''stub'' ''XX99 ZZZ''
      [CStr ''AB12 CDE'' \<mapsto> (CStr ''Ford Focus'', ''2019'')] 0)) = ''Pass''"
    by fastforce
  from h1 h2 t [of ford_focus 0] a b show ?thesis by simp
qed

section \<open>The validator: the error path\<close>

text \<open>
  C9 (placeholders on the error path). The function is total: whatever the browser does,
  it returns a result. Whenever that result's status is \<open>Error\<close>, both actual fields are
  \<open>N/A\<close>; and the status is \<open>Error\<close> exactly when an exception left the \<^verbatim>\<open>try\<close>
  block.
\<close>

theorem validate_registration_error_placeholders:
  "(status (fst (validate_registration configs drv site registration expected_data s)) = ''Error'' \<longrightarrow>
      act_model (fst (validate_registration configs drv site registration expected_data s)) = ''N/A'' \<and>
      act_year (fst (validate_registration configs drv site registration expected_data s)) = ''N/A'') \<and>
   (status (fst (validate_registration configs drv site registration expected_data s)) = ''Error'') =
     (fst (fst (validate_try configs drv site registration expected_data
                  (initial_result site registration) s)) \<noteq> None)"
  by (auto simp: validate_registration_def validate_try_def initial_result_def Let_def
      split: option.splits prod.splits sum.splits bool.splits)

text \<open>
  The motorway flow on a site where every element is there: its wait step raises
  \<^verbatim>\<open>KeyError\<close>, which the validator catches.
\<close>

lemma motorway_try_raises:
  "validate_try WEBSITE_CONFIGS ford_focus ''motorway'' ''AB12 CDE'' Map.empty
     (initial_result ''motorway'' ''AB12 CDE'') 0 =
   ((Some (KeyError ''action''),
     (initial_result ''motorway'' ''AB12 CDE'')\<lparr>exp_model := CStr ''Not Found'', exp_year := ''N/A''\<rparr>), 1)"
  by (simp add: validate_try_def WEBSITE_CONFIGS_def search_registration_body search_body_def
      ford_focus_def stub_driver_def motorway_def
      bind_act_def return_val_def raise_exn_def execute_action_def dict_get_def format_keys_def)

theorem validate_registration_error_placeholders_witness:
  "fst (fst (validate_try WEBSITE_CONFIGS ford_focus ''motorway'' ''AB12 CDE'' Map.empty
     (initial_result ''motorway'' ''AB12 CDE'') 0)) = Some (KeyError ''action'') \<and>
   status (fst (validate_registration WEBSITE_CONFIGS ford_focus ''motorway'' ''AB12 CDE'' Map.empty 0)) = ''Error'' \<and>
   act_model (fst (validate_registration WEBSITE_CONFIGS ford_focus ''motorway'' ''AB12 CDE'' Map.empty 0)) = ''N/A'' \<and>
   act_year (fst (validate_registration WEBSITE_CONFIGS ford_focus ''motorway'' ''AB12 CDE'' Map.empty 0)) = ''N/A''"
  using validate_registration_error_placeholders
    [of WEBSITE_CONFIGS ford_focus "''motorway''" "''AB12 CDE''" Map.empty 0]
  by (simp add: motorway_try_raises)

section \<open>The registration loader\<close>

text \<open>The character classes of the pattern: capitals are no digits and no spaces, and
  capitals and digits are word characters.\<close>

lemma upper_not_digit: "is_upper c \<Longrightarrow> \<not> is_digit c"
  by (simp add: is_upper_def is_digit_def Let_def)

lemma upper_not_space: "is_upper c \<Longrightarrow> c \<noteq> CHR '' ''"
  by (auto simp: is_upper_def Let_def)

lemma upper_is_word: "is_upper c \<Longrightarrow> is_word c"
  by (simp add: is_upper_def is_word_def Let_def)

lemma digit_is_word: "is_digit c \<Longrightarrow> is_word c"
  by (simp add: is_digit_def is_word_def Let_def)

text \<open>
  Two matches never overlap: a match starting inside another one would need a capital
  where the other has a digit or the space, or a word character right after the other's
  closing word boundary.
\<close>

lemma match_atD:
  assumes "match_at t k"
  shows "k + 8 \<le> length t" and "is_upper (t ! k)" and "is_upper (t ! (k + 1))"
    and "is_digit (t ! (k + 2))" and "is_digit (t ! (k + 3))" and "t ! (k + 4) = CHR '' ''"
    and "is_upper (t ! (k + 5))" and "is_upper (t ! (k + 6))" and "is_upper (t ! (k + 7))"
    and "word_boundary t (k + 8)"
  using assms unfolding match_at_def by blast+

lemma match_at_end:
  assumes "match_at t k" and "k + 8 < length t"
  shows "\<not> is_word (t ! (k + 8))"
proof
  assume "is_word (t ! (k + 8))"
  with assms(2) have r: "k + 8 < length t \<and> is_word (t ! (k + 8))" by blast
  have "is_word (t ! (k + 7))"
    using match_atD(9) [OF assms(1)] by (rule upper_is_word)
  moreover have "k + 8 - 1 = k + 7" by simp
  ultimately have "is_word (t ! (k + 8 - 1))" by metis
  moreover have "0 < k + 8" and "k + 8 \<le> length t" using assms(2) by simp_all
  ultimately have l: "0 < k + 8 \<and> k + 8 \<le> length t \<and> is_word (t ! (k + 8 - 1))" by blast
  from match_atD(10) [OF assms(1)] l r show False
    unfolding word_boundary_def by blast
qed

lemma match_at_apart:
  assumes k: "match_at t k" and j: "match_at t j" and "k < j"
  shows "k + 8 \<le> j"
proof (rule ccontr)
  assume "\<not> k + 8 \<le> j"
  with \<open>k < j\<close> consider "j = k + 1" | "j = k + 2" | "j = k + 3" | "j = k + 4"
    | "j = k + 5" | "j = k + 6" | "j = k + 7" by linarith
  then show False
  proof cases
    case 1
    then have "j + 1 = k + 2" by simp
    with match_atD(3) [OF j] have "is_upper (t ! (k + 2))" by metis
    with match_atD(4) [OF k] show False by (simp add: upper_not_digit)
  next
    case 2
    with match_atD(2) [OF j] have "is_upper (t ! (k + 2))" by metis
    with match_atD(4) [OF k] show False by (simp add: upper_not_digit)
  next
    case 3
    with match_atD(2) [OF j] have "is_upper (t ! (k + 3))" by metis
    with match_atD(5) [OF k] show False by (simp add: upper_not_digit)
  next
    case 4
    with match_atD(2) [OF j] have "is_upper (t ! (k + 4))" by metis
    with match_atD(6) [OF k] show False using upper_not_space by metis
  next
    case 5
    then have "j + 2 = k + 7" by simp
    with match_atD(4) [OF j] have "is_digit (t ! (k + 7))" by metis
    with match_atD(9) [OF k] show False by (simp add: upper_not_digit)
  next
    case 6
    then have "j + 2 = k + 8" by simp
    with match_atD(4) [OF j] have "is_digit (t ! (k + 8))" by metis
    moreover from 6 match_atD(1) [OF j] have "k + 8 < length t" by simp
    ultimately show False using match_at_end [OF k] by (simp add: digit_is_word)
  next
    case 7
    then have "j + 1 = k + 8" by simp
    with match_atD(3) [OF j] have "is_upper (t ! (k + 8))" by metis
    moreover from 7 match_atD(1) [OF j] have "k + 8 < length t" by simp
    ultimately show False using match_at_end [OF k] by (simp add: upper_is_word)
  qed
qed

text \<open>
  The scan returns matches only, finds every match from its start index on, and returns
  them from left to right.
\<close>

lemma findall_from_sound:
  "j \<in> set (findall_from t i) \<Longrightarrow> i \<le> j \<and> match_at t j"
proof (induction t i rule: findall_from.induct)
  case (1 t i)
  show ?case
  proof (cases "length t < i + 8")
    case True
    with "1.prems" show ?thesis by (simp add: findall_from.simps [of t i])
  next
    case False
    show ?thesis
    proof (cases "match_at t i")
      case True
      with False "1.prems" have "j = i \<or> j \<in> set (findall_from t (i + 8))"
        by (simp add: findall_from.simps [of t i])
      then show ?thesis using "1.IH"(1) [OF False True] True by auto
    next
      case no: False
      with False "1.prems" have "j \<in> set (findall_from t (i + 1))"
        by (simp add: findall_from.simps [of t i])
      then show ?thesis using "1.IH"(2) [OF False no] by auto
    qed
  qed
qed

lemma findall_from_sorted:
  "sorted_wrt (\<lambda>a b. a + 8 \<le> b) (findall_from t i)"
proof (induction t i rule: findall_from.induct)
  case (1 t i)
  show ?case
  proof (cases "length t < i + 8")
    case True
    then show ?thesis by (simp add: findall_from.simps [of t i])
  next
    case False
    show ?thesis
    proof (cases "match_at t i")
      case True
      have "\<forall>j \<in> set (findall_from t (i + 8)). i + 8 \<le> j"
        using findall_from_sound [of _ t "i + 8"] by blast
      with False True "1.IH"(1) [OF False True] show ?thesis
        by (simp add: findall_from.simps [of t i])
    next
      case no: False
      with False "1.IH"(2) [OF False no] show ?thesis
        by (simp add: findall_from.simps [of t i])
    qed
  qed
qed

lemma findall_from_complete:
  "match_at t j \<Longrightarrow> i \<le> j \<Longrightarrow> j \<in> set (findall_from t i)"
proof (induction t i rule: findall_from.induct)
  case (1 t i)
  from "1.prems"(1) have len: "j + 8 \<le> length t" by (simp add: match_at_def)
  with "1.prems"(2) have False: "\<not> length t < i + 8" by simp
  show ?case
  proof (cases "match_at t i")
    case True
    show ?thesis
    proof (cases "j = i")
      case True
      with False \<open>match_at t i\<close> show ?thesis by (simp add: findall_from.simps [of t i])
    next
      case False
      with "1.prems"(2) have "i < j" by simp
      with match_at_apart [OF True "1.prems"(1)] have "i + 8 \<le> j" by simp
      with "1.IH"(1) [OF \<open>\<not> length t < i + 8\<close> True "1.prems"(1)]
      have "j \<in> set (findall_from t (i + 8))" by simp
      with \<open>\<not> length t < i + 8\<close> True show ?thesis by (simp add: findall_from.simps [of t i])
    qed
  next
    case no: False
    with "1.prems" have "j \<noteq> i" by auto
    with "1.prems"(2) have "i + 1 \<le> j" by simp
    with "1.IH"(2) [OF False no "1.prems"(1)] have "j \<in> set (findall_from t (i + 1))" by simp
    with False no show ?thesis by (simp add: findall_from.simps [of t i])
  qed
qed

lemma match_at_full_match:
  assumes "match_at t j"
  shows "full_match (take 8 (drop j t))"
proof -
  from assms have len: "j + 8 \<le> length t" by (simp add: match_at_def)
  then have "length (take 8 (drop j t)) = 8" by simp
  moreover have "\<And>d. d < 8 \<Longrightarrow> take 8 (drop j t) ! d = t ! (j + d)"
    using len by simp
  ultimately show ?thesis using assms by (simp add: full_match_def match_at_def)
qed

text \<open>
  C6 (what the registration loader extracts). For every input text: each extracted
  string is, as a whole, two capitals, two digits, a space and three capitals, so it
  matches the anchored pattern; the list is the sequence of eight-character substrings
  at the start indices the scan returns; these indices increase from left to right
  without overlap; and they are exactly the indices where the pattern matches, so every
  occurrence gives one entry, a repeated registration as often as it occurs.
\<close>

theorem load_registrations_pattern:
  "(\<forall>r \<in> set (load_registrations content). full_match r) \<and>
   load_registrations content = map (\<lambda>i. take 8 (drop i content)) (findall_from content 0) \<and>
   sorted_wrt (\<lambda>i j. i + 8 \<le> j) (findall_from content 0) \<and>
   set (findall_from content 0) = {i. match_at content i}"
proof -
  have a: "\<forall>r \<in> set (load_registrations content). full_match r"
    using findall_from_sound [of _ content 0] match_at_full_match [of content]
    by (auto simp: load_registrations_def)
  have b: "set (findall_from content 0) = {i. match_at content i}"
    using findall_from_sound [of _ content 0] findall_from_complete [of content _ 0]
    by auto
  from a b findall_from_sorted [of content 0] show ?thesis
    by (simp add: load_registrations_def)
qed

text \<open>
  The sample text: both occurrences of the repeated registration are kept, in order; the
  one glued to a letter and the lower-case one are left out.
\<close>

lemma sample_text_positions: "findall_from sample_text 0 = [8, 27, 67]"
  by code_simp

lemma sample_text_registrations:
  "load_registrations sample_text = [''AB12 CDE'', ''AB12 CDE'', ''ZZ99 QQQ'']"
  by (simp add: load_registrations_def sample_text_positions) (simp add: sample_text_def)

theorem load_registrations_pattern_witness:
  "load_registrations sample_text = [''AB12 CDE'', ''AB12 CDE'', ''ZZ99 QQQ''] \<and>
   full_match ''AB12 CDE'' \<and> full_match ''ZZ99 QQQ'' \<and>
   findall_from sample_text 0 = [8, 27, 67] \<and>
   {i. match_at sample_text i} = {8, 27, 67}"
proof -
  note t = load_registrations_pattern [of sample_text]
  from t have "\<forall>r \<in> set (load_registrations sample_text). full_match r" by (rule conjunct1)
  then have f: "full_match ''AB12 CDE'' \<and> full_match ''ZZ99 QQQ''"
    by (simp add: sample_text_registrations)
  from t have "set (findall_from sample_text 0) = {i. match_at sample_text i}"
    by (elim conjE)
  then have "{i. match_at sample_text i} = {8, 27, 67}"
    by (simp add: sample_text_positions)
  with f show ?thesis by (simp add: sample_text_positions sample_text_registrations)
qed

section \<open>The expected-data loader\<close>

text \<open>The dictionary built row by row holds, for a key, the entry of the last row with it.\<close>

lemma fold_update_find:
  "fold (\<lambda>row m. m(VARIANT_REG row \<mapsto> (MAKE_MODEL row, py_str (YEAR row)))) rows m0 k =
   (case find (\<lambda>row. VARIANT_REG row = k) (rev rows) of
      None \<Rightarrow> m0 k
    | Some row \<Rightarrow> Some (MAKE_MODEL row, py_str (YEAR row)))"
  by (induction rows rule: rev_induct) auto

lemma find_distinct_key:
  "distinct (map f xs) \<Longrightarrow> x \<in> set xs \<Longrightarrow> find (\<lambda>y. f y = f x) xs = Some x"
  by (induction xs) (auto simp: rev_image_eqI)

lemma py_str_2019: "py_str (CInt 2019) = ''2019''"
  by code_simp

text \<open>
  C10 (the year is stored as a string, the model as it is). For every table and key, the
  loaded map holds under the key the pair of the \<^verbatim>\<open>MAKE_MODEL\<close> cell, unconverted, and
  of \<^verbatim>\<open>str\<close> of the \<^verbatim>\<open>YEAR\<close> cell, taken from the last row with that key, and
  nothing if no row has it; with distinct keys every row is stored so. The year
  component is a string by its type: the integer 2019 becomes the string \<open>2019\<close>, a
  string stays as it is.
\<close>

theorem load_expected_data_year_string:
  "load_expected_data rows k =
     map_option (\<lambda>row. (MAKE_MODEL row, py_str (YEAR row)))
       (find (\<lambda>row. VARIANT_REG row = k) (rev rows)) \<and>
   (distinct (map VARIANT_REG rows) \<longrightarrow>
      (\<forall>row \<in> set rows.
         load_expected_data rows (VARIANT_REG row) = Some (MAKE_MODEL row, py_str (YEAR row)))) \<and>
   py_str (CInt 2019) = ''2019'' \<and> (\<forall>t. py_str (CStr t) = t)"
proof -
  have a: "\<And>k. load_expected_data rows k =
     map_option (\<lambda>row. (MAKE_MODEL row, py_str (YEAR row)))
       (find (\<lambda>row. VARIANT_REG row = k) (rev rows))"
    by (simp add: load_expected_data_def fold_update_find split: option.splits)
  have b: "load_expected_data rows (VARIANT_REG row) = Some (MAKE_MODEL row, py_str (YEAR row))"
    if "distinct (map VARIANT_REG rows)" and "row \<in> set rows" for row
  proof -
    from that have "distinct (map VARIANT_REG (rev rows))" and "row \<in> set (rev rows)"
      by (simp_all add: rev_map [symmetric])
    then have "find (\<lambda>y. VARIANT_REG y = VARIANT_REG row) (rev rows) = Some row"
      by (rule find_distinct_key)
    then show ?thesis by (simp add: a)
  qed
  show ?thesis
  proof (intro conjI impI ballI)
    show "load_expected_data rows k =
      map_option (\<lambda>row. (MAKE_MODEL row, py_str (YEAR row)))
        (find (\<lambda>row. VARIANT_REG row = k) (rev rows))"
      by (rule a)
  next
    fix row
    assume "distinct (map VARIANT_REG rows)" and "row \<in> set rows"
    then show "load_expected_data rows (VARIANT_REG row) = Some (MAKE_MODEL row, py_str (YEAR row))"
      by (rule b)
  next
    show "py_str (CInt 2019) = ''2019''" by (rule py_str_2019)
  next
    show "\<forall>t. py_str (CStr t) = t" by simp
  qed
qed

theorem load_expected_data_year_string_witness:
  "load_expected_data
     [\<lparr>VARIANT_REG = CStr ''AB12 CDE'', MAKE_MODEL = CStr ''Ford Focus'', YEAR = CInt 2019\<rparr>,
      \<lparr>VARIANT_REG = CStr ''XY34 ZZZ'', MAKE_MODEL = CInt 500, YEAR = CFloat ''2020.0''\<rparr>]
     (CStr ''AB12 CDE'') = Some (CStr ''Ford Focus'', ''2019'') \<and>
   load_expected_data
     [\<lparr>VARIANT_REG = CStr ''AB12 CDE'', MAKE_MODEL = CStr ''Ford Focus'', YEAR = CInt 2019\<rparr>,
      \<lparr>VARIANT_REG = CStr ''XY34 ZZZ'', MAKE_MODEL = CInt 500, YEAR = CFloat ''2020.0''\<rparr>]
     (CStr ''XY34 ZZZ'') = Some (CInt 500, ''2020.0'')"
  using load_expected_data_year_string
    [of "[\<lparr>VARIANT_REG = CStr ''AB12 CDE'', MAKE_MODEL = CStr ''Ford Focus'', YEAR = CInt 2019\<rparr>,
      \<lparr>VARIANT_REG = CStr ''XY34 ZZZ'', MAKE_MODEL = CInt 500, YEAR = CFloat ''2020.0''\<rparr>]"
        "CStr ''AB12 CDE''"]
    load_expected_data_year_string
    [of "[\<lparr>VARIANT_REG = CStr ''AB12 CDE'', MAKE_MODEL = CStr ''Ford Focus'', YEAR = CInt 2019\<rparr>,
      \<lparr>VARIANT_REG = CStr ''XY34 ZZZ'', MAKE_MODEL = CInt 500, YEAR = CFloat ''2020.0''\<rparr>]"
        "CStr ''XY34 ZZZ''"]
  by (simp add: py_str_2019 del: py_str.simps(2))

end
